theory Spec2Isabelle
  imports Complex_Main "HOL-Library.Word"
begin

section \<open>Data model (types.ts, constants.tsx)\<close>

text \<open>
  The six sticker labels of \<^verbatim>\<open>types.ts\<close>:
  \<^verbatim>\<open>export type Color = 'white' | 'yellow' | 'red' | 'orange' | 'blue' | 'green';\<close>
\<close>

datatype Color = White | Yellow | Red | Orange | Blue | Green

text \<open>\<^verbatim>\<open>export type Face = Color[][]; // 3x3 array\<close>\<close>

type_synonym Face = "Color list list"

text \<open>
  \<^verbatim>\<open>CubeState\<close> is a JavaScript object keyed by the face names. The scanner hands
  the key over as a \<^verbatim>\<open>string\<close>, so the object is modelled as a map from strings.
\<close>

type_synonym CubeState = "string \<rightharpoonup> Face"

definition createFace :: "Color \<Rightarrow> Face" where
  "createFace color = [[color, color, color], [color, color, color], [color, color, color]]"

definition INITIAL_CUBE_STATE :: CubeState where
  "INITIAL_CUBE_STATE =
     [''U'' \<mapsto> createFace White, ''D'' \<mapsto> createFace Yellow, ''L'' \<mapsto> createFace Orange,
      ''R'' \<mapsto> createFace Red, ''F'' \<mapsto> createFace Green, ''B'' \<mapsto> createFace Blue]"

text \<open>
  \<^verbatim>\<open>COLOR_MAP\<close> gives each label a CSS colour, a string of the form \<^verbatim>\<open>#RRGGBB\<close>.
\<close>

fun COLOR_MAP :: "Color \<Rightarrow> string" where
  "COLOR_MAP White = ''#FFFFFF''"
| "COLOR_MAP Yellow = ''#FFD700''"
| "COLOR_MAP Red = ''#DC2626''"
| "COLOR_MAP Orange = ''#F97316''"
| "COLOR_MAP Blue = ''#2563EB''"
| "COLOR_MAP Green = ''#16A34A''"

text \<open>
  The channels that a colour string \<^verbatim>\<open>#RRGGBB\<close> denotes: two hexadecimal digits
  per channel. The source leaves this reading to the browser; it is written out
  here to obtain the canonical RGB triple of each label.
\<close>

definition hexDigit :: "char \<Rightarrow> nat" where
  "hexDigit c =
     (let n = (of_char c :: nat)
      in if 48 \<le> n \<and> n \<le> 57 then n - 48
         else if 65 \<le> n \<and> n \<le> 70 then n - 55
         else if 97 \<le> n \<and> n \<le> 102 then n - 87
         else 0)"

fun hexToRgb :: "string \<Rightarrow> (real \<times> real \<times> real) option" where
  "hexToRgb [h, r1, r2, g1, g2, b1, b2] =
     (if h = CHR ''#''
      then Some (real (16 * hexDigit r1 + hexDigit r2),
                 real (16 * hexDigit g1 + hexDigit g2),
                 real (16 * hexDigit b1 + hexDigit b2))
      else None)"
| "hexToRgb _ = None"

section \<open>LAB colour utilities (components/Scanner.tsx)\<close>

text \<open>
  JavaScript numbers are modelled as real numbers: \<^verbatim>\<open>Math.pow(v, e)\<close> with a positive
  base is \<open>v powr e\<close>, \<^verbatim>\<open>Math.pow(v, 2)\<close> is \<open>v\<^sup>2\<close>, \<^verbatim>\<open>Math.sqrt\<close> is \<open>sqrt\<close>.
  Both power calls with a fractional exponent sit behind a guard that makes
  their base positive.
\<close>

type_synonym lab = "real \<times> real \<times> real"

definition rgbToLab :: "real \<Rightarrow> real \<Rightarrow> real \<Rightarrow> lab" where
  "rgbToLab r g b =
     (let rN = r / 255; gN = g / 255; bN = b / 255;
          rN = (if rN > 0.04045 then ((rN + 0.055) / 1.055) powr 2.4 else rN / 12.92);
          gN = (if gN > 0.04045 then ((gN + 0.055) / 1.055) powr 2.4 else gN / 12.92);
          bN = (if bN > 0.04045 then ((bN + 0.055) / 1.055) powr 2.4 else bN / 12.92);
          x = (rN * 0.4124 + gN * 0.3576 + bN * 0.1805) * 100;
          y = (rN * 0.2126 + gN * 0.7152 + bN * 0.0722) * 100;
          z = (rN * 0.0193 + gN * 0.1192 + bN * 0.9505) * 100;
          x = x / 95.047; y = y / 100.000; z = z / 108.883;
          x = (if x > 0.008856 then x powr (1 / 3) else (7.787 * x) + (16 / 116));
          y = (if y > 0.008856 then y powr (1 / 3) else (7.787 * y) + (16 / 116));
          z = (if z > 0.008856 then z powr (1 / 3) else (7.787 * z) + (16 / 116))
      in ((116 * y) - 16, 500 * (x - y), 200 * (y - z)))"

text \<open>
  \<^verbatim>\<open>COLOR_CENTROIDS\<close> in the order \<^verbatim>\<open>Object.entries\<close> enumerates it (insertion
  order of the string keys).
\<close>

definition COLOR_CENTROIDS :: "(Color \<times> lab) list" where
  "COLOR_CENTROIDS =
     [(White, (95, 0, 0)),
      (Yellow, (85, -10, 80)),
      (Red, (45, 60, 45)),
      (Orange, (65, 45, 65)),
      (Blue, (35, 10, -50)),
      (Green, (55, -50, 40))]"

text \<open>Delta E: the Euclidean distance in LAB space computed in the loop body.\<close>

definition distance :: "lab \<Rightarrow> lab \<Rightarrow> real" where
  "distance p centroid =
     (case (p, centroid) of ((p0, p1, p2), (c0, c1, c2)) \<Rightarrow>
        sqrt ((p0 - c0)\<^sup>2 + (p1 - c1)\<^sup>2 + (p2 - c2)\<^sup>2))"

text \<open>
  One iteration of \<^verbatim>\<open>for (const [color, centroid] of Object.entries(COLOR_CENTROIDS))\<close>.
  The loop state is \<open>(minDistance, closest)\<close>; \<open>None\<close> stands for the initial
  \<^verbatim>\<open>Infinity\<close>, below which every real distance lies.
\<close>

fun closestStep :: "lab \<Rightarrow> real option \<times> Color \<Rightarrow> Color \<times> lab \<Rightarrow> real option \<times> Color" where
  "closestStep p (minDistance, closest) (color, centroid) =
     (let d = distance p centroid
      in if (case minDistance of None \<Rightarrow> True | Some m \<Rightarrow> d < m)
         then (Some d, color)
         else (minDistance, closest))"

definition closestLoop :: "lab \<Rightarrow> (Color \<times> lab) list \<Rightarrow> real option \<times> Color" where
  "closestLoop p table = foldl (closestStep p) (None, White) table"

text \<open>The selection of \<^verbatim>\<open>getClosestColor\<close> after the conversion: the loop and its result.\<close>

definition nearestCentroid :: "lab \<Rightarrow> Color" where
  "nearestCentroid p = snd (closestLoop p COLOR_CENTROIDS)"

definition getClosestColor :: "real \<Rightarrow> real \<Rightarrow> real \<Rightarrow> Color" where
  "getClosestColor r g b = (let p = rgbToLab r g b in nearestCentroid p)"

text \<open>
  The two piecewise expressions that \<^verbatim>\<open>rgbToLab\<close> writes out once per channel and
  once per coordinate, named so that the proofs below can speak about them.
\<close>

definition srgbLinear :: "real \<Rightarrow> real" where
  "srgbLinear v = (if v > 0.04045 then ((v + 0.055) / 1.055) powr 2.4 else v / 12.92)"

definition labCurve :: "real \<Rightarrow> real" where
  "labCurve t = (if t > 0.008856 then t powr (1 / 3) else (7.787 * t) + (16 / 116))"

subsection \<open>The converter as the specification words it\<close>

text \<open>
  The specification describes the converter as a pipeline of named stages. The
  definitions below follow that description; the entries of the matrix are the
  coefficients of the source, on the scale of the white point (the source
  multiplies each row sum by 100).
\<close>

definition spec_normalize :: "real \<Rightarrow> real" where
  "spec_normalize c = c / 255"

definition spec_gamma :: "real \<Rightarrow> real" where
  "spec_gamma v = (if v \<le> 0.04045 then v / 12.92 else ((v + 0.055) / 1.055) powr 2.4)"

definition spec_matrix :: "(real \<times> real \<times> real) \<times> (real \<times> real \<times> real) \<times> (real \<times> real \<times> real)" where
  "spec_matrix =
     ((100 * 0.4124, 100 * 0.3576, 100 * 0.1805),
      (100 * 0.2126, 100 * 0.7152, 100 * 0.0722),
      (100 * 0.0193, 100 * 0.1192, 100 * 0.9505))"

fun spec_row :: "real \<times> real \<times> real \<Rightarrow> real \<times> real \<times> real \<Rightarrow> real" where
  "spec_row (m0, m1, m2) (v0, v1, v2) = m0 * v0 + m1 * v1 + m2 * v2"

fun spec_combine ::
  "(real \<times> real \<times> real) \<times> (real \<times> real \<times> real) \<times> (real \<times> real \<times> real) \<Rightarrow>
   real \<times> real \<times> real \<Rightarrow> real \<times> real \<times> real" where
  "spec_combine (row0, row1, row2) v = (spec_row row0 v, spec_row row1 v, spec_row row2 v)"

definition spec_white :: "real \<times> real \<times> real" where
  "spec_white = (95.047, 100.000, 108.883)"

fun spec_divide :: "real \<times> real \<times> real \<Rightarrow> real \<times> real \<times> real \<Rightarrow> real \<times> real \<times> real" where
  "spec_divide (x, y, z) (wx, wy, wz) = (x / wx, y / wy, z / wz)"

definition spec_cuberoot :: "real \<Rightarrow> real" where
  "spec_cuberoot v = (if v > 0.008856 then root 3 v else 7.787 * v + 16 / 116)"

definition spec_rgbToLab :: "real \<Rightarrow> real \<Rightarrow> real \<Rightarrow> lab" where
  "spec_rgbToLab r g b =
     (case spec_divide
             (spec_combine spec_matrix
                (spec_gamma (spec_normalize r), spec_gamma (spec_normalize g),
                 spec_gamma (spec_normalize b)))
             spec_white of
        (xn, yn, zn) \<Rightarrow>
          (let fx = spec_cuberoot xn; fy = spec_cuberoot yn; fz = spec_cuberoot zn
           in (116 * fy - 16, 500 * (fx - fy), 200 * (fy - fz))))"

section \<open>The colour sampler and the face scan (Scanner.captureFace)\<close>

text \<open>
  The pixel buffer is the \<^verbatim>\<open>Uint8ClampedArray\<close> of an \<^verbatim>\<open>ImageData\<close>: bytes in the
  order R, G, B, A. A read beyond the end of the array is \<^verbatim>\<open>undefined\<close>, which
  the additions turn into \<^verbatim>\<open>NaN\<close>; \<open>None\<close> stands for \<^verbatim>\<open>NaN\<close>.
\<close>

type_synonym jsnum = "real option"

definition readByte :: "8 word list \<Rightarrow> nat \<Rightarrow> jsnum" where
  "readByte imgData i = (if i < length imgData then Some (real (unat (imgData ! i))) else None)"

fun addNum :: "jsnum \<Rightarrow> jsnum \<Rightarrow> jsnum" where
  "addNum (Some a) (Some b) = Some (a + b)"
| "addNum _ _ = None"

text \<open>\<^verbatim>\<open>for (let i = 0; i < imgData.length; i += 4) { r += imgData[i]; ... }\<close>\<close>

function sumChannels :: "8 word list \<Rightarrow> nat \<Rightarrow> jsnum \<times> jsnum \<times> jsnum \<Rightarrow> jsnum \<times> jsnum \<times> jsnum" where
  "sumChannels imgData i (r, g, b) =
     (if i < length imgData
      then sumChannels imgData (i + 4)
             (addNum r (readByte imgData i),
              addNum g (readByte imgData (i + 1)),
              addNum b (readByte imgData (i + 2)))
      else (r, g, b))"
  by pat_completeness auto
termination
  by (relation "measure (\<lambda>(imgData, i, acc). length imgData - i)") auto

declare sumChannels.simps [simp del]

text \<open>
  \<^verbatim>\<open>r /= (imgData.length / 4)\<close> and the same for \<^verbatim>\<open>g\<close> and \<^verbatim>\<open>b\<close>. With an empty
  buffer the three sums are 0 and the quotient \<^verbatim>\<open>0 / 0\<close> is \<^verbatim>\<open>NaN\<close>.
\<close>

definition divNum :: "jsnum \<Rightarrow> real \<Rightarrow> jsnum" where
  "divNum s n = (case s of None \<Rightarrow> None | Some v \<Rightarrow> if n = 0 then None else Some (v / n))"

definition averageRegion :: "8 word list \<Rightarrow> jsnum \<times> jsnum \<times> jsnum" where
  "averageRegion imgData =
     (case sumChannels imgData 0 (Some 0, Some 0, Some 0) of
        (r, g, b) \<Rightarrow>
          (divNum r (real (length imgData) / 4),
           divNum g (real (length imgData) / 4),
           divNum b (real (length imgData) / 4)))"

text \<open>
  \<^verbatim>\<open>getClosestColor(r, g, b)\<close> on the averaged channels. A \<^verbatim>\<open>NaN\<close> channel makes
  every LAB coordinate and every distance \<^verbatim>\<open>NaN\<close>, no comparison
  \<^verbatim>\<open>distance < minDistance\<close> succeeds, and the initial \<^verbatim>\<open>'white'\<close> is returned.
\<close>

fun classifySample :: "jsnum \<times> jsnum \<times> jsnum \<Rightarrow> Color" where
  "classifySample (Some r, Some g, Some b) = getClosestColor r g b"
| "classifySample _ = White"

text \<open>
  The canvas after \<^verbatim>\<open>ctx.drawImage(video, 0, 0)\<close>: its size and the browser's
  \<^verbatim>\<open>getImageData(sx, sy, sw, sh)\<close>, which is not code of this repository and is
  taken as a parameter.
\<close>

record Canvas =
  width :: nat
  height :: nat
  getImageData :: "real \<Rightarrow> real \<Rightarrow> real \<Rightarrow> real \<Rightarrow> 8 word list"

text \<open>The centre of the sample area of a grid cell, as the loop body computes it.\<close>

definition sampleX :: "Canvas \<Rightarrow> nat \<Rightarrow> real" where
  "sampleX canvas col =
     (let size = min (real (width canvas)) (real (height canvas)) * 0.5;
          startX = (real (width canvas) - size) / 2;
          step = size / 3
      in startX + real col * step + step / 2)"

definition sampleY :: "Canvas \<Rightarrow> nat \<Rightarrow> real" where
  "sampleY canvas row =
     (let size = min (real (width canvas)) (real (height canvas)) * 0.5;
          startY = (real (height canvas) - size) / 2;
          step = size / 3
      in startY + real row * step + step / 2)"

definition sampleCell :: "Canvas \<Rightarrow> nat \<Rightarrow> nat \<Rightarrow> Color" where
  "sampleCell canvas row col =
     (let x = sampleX canvas col;
          y = sampleY canvas row;
          imgData = getImageData canvas (x - 5) (y - 5) 10 10
      in classifySample (averageRegion imgData))"

text \<open>The two nested loops over \<^verbatim>\<open>row\<close> and \<^verbatim>\<open>col\<close> that build \<^verbatim>\<open>detectedFace\<close>.\<close>

definition detectedFace :: "Canvas \<Rightarrow> Face" where
  "detectedFace canvas = map (\<lambda>row. map (\<lambda>col. sampleCell canvas row col) [0..<3]) [0..<3]"

definition faces :: "string list" where
  "faces = [''Front'', ''Back'', ''Up'', ''Down'', ''Left'', ''Right'']"

definition faceKeys :: "string list" where
  "faceKeys = [''F'', ''B'', ''U'', ''D'', ''L'', ''R'']"

text \<open>
  \<^verbatim>\<open>captureFace\<close>: without a video, canvas or 2D context (\<open>None\<close>), or after six
  captured faces, it returns without effect. Otherwise it reports the key and the
  detected face to \<^verbatim>\<open>onScanComplete\<close> and appends the face name to
  \<^verbatim>\<open>capturedFaces\<close>; the result holds the call's arguments and the new list.
\<close>

definition captureFace :: "Canvas option \<Rightarrow> string list \<Rightarrow> ((string \<times> Face) \<times> string list) option" where
  "captureFace canvas capturedFaces =
     (case canvas of
        None \<Rightarrow> None
      | Some cv \<Rightarrow>
          if length capturedFaces \<ge> 6 then None
          else Some ((faceKeys ! length capturedFaces, detectedFace cv),
                     capturedFaces @ [faces ! length capturedFaces]))"

section \<open>Recording a face (App.handleFaceScan)\<close>

text \<open>
  \<^verbatim>\<open>setCubeState(prev => ({ ...prev, [faceKey]: faceData }))\<close>: the updater that React
  applies to the previous cube state.
\<close>

definition handleFaceScan :: "string \<Rightarrow> Face \<Rightarrow> CubeState \<Rightarrow> CubeState" where
  "handleFaceScan faceKey faceData prev = prev(faceKey \<mapsto> faceData)"

section \<open>The Euclidean distance\<close>

lemma distance_sq:
  "distance (p0, p1, p2) (c0, c1, c2) = sqrt ((p0 - c0)\<^sup>2 + (p1 - c1)\<^sup>2 + (p2 - c2)\<^sup>2)"
  by (simp add: distance_def)

text \<open>
  Claim C6. The distance of the classifier is symmetric and non-negative for
  every pair of triples of real numbers.
\<close>

theorem distance_symmetric_nonneg:
  "distance p q = distance q p \<and> 0 \<le> distance p q"
  by (cases p, cases q) (simp add: distance_def power2_commute)

section \<open>The nearest-centroid loop\<close>

lemma closestLoop_snoc:
  "closestLoop p (xs @ [x]) = closestStep p (closestLoop p xs) x"
  by (simp add: closestLoop_def)

text \<open>
  The loop invariant, by induction on the part of the table already visited:
  the state holds the least distance seen so far and the label of the first
  entry that attains it.
\<close>

lemma closestLoop_invariant:
  "xs \<noteq> [] \<Longrightarrow>
   \<exists>i<length xs. closestLoop p xs = (Some (distance p (snd (xs ! i))), fst (xs ! i))
      \<and> (\<forall>j<length xs. distance p (snd (xs ! i)) \<le> distance p (snd (xs ! j)))
      \<and> (\<forall>j<i. distance p (snd (xs ! i)) < distance p (snd (xs ! j)))"
proof (induction xs rule: rev_induct)
  case Nil
  then show ?case by simp
next
  case (snoc x xs)
  obtain color centroid where x: "x = (color, centroid)" by (cases x)
  show ?case
  proof (cases "xs = []")
    case True
    then show ?thesis
      by (simp add: closestLoop_def x)
  next
    case False
    with snoc.IH obtain i where i: "i < length xs"
      and st: "closestLoop p xs = (Some (distance p (snd (xs ! i))), fst (xs ! i))"
      and mn: "\<forall>j<length xs. distance p (snd (xs ! i)) \<le> distance p (snd (xs ! j))"
      and fs: "\<forall>j<i. distance p (snd (xs ! i)) < distance p (snd (xs ! j))"
      by blast
    show ?thesis
    proof (cases "distance p centroid < distance p (snd (xs ! i))")
      case True
      have "closestLoop p (xs @ [x]) = (Some (distance p centroid), color)"
        using True by (simp add: closestLoop_snoc st x)
      moreover have "\<forall>j<length xs. distance p centroid < distance p (snd (xs ! j))"
        using True mn by fastforce
      ultimately show ?thesis
        by (intro exI[of _ "length xs"]) (auto simp: nth_append x less_Suc_eq intro: less_imp_le)
    next
      case False
      have "closestLoop p (xs @ [x]) = (Some (distance p (snd (xs ! i))), fst (xs ! i))"
        using False by (simp add: closestLoop_snoc st x)
      then show ?thesis
        using i mn fs False
        by (intro exI[of _ i]) (auto simp: nth_append x less_Suc_eq)
    qed
  qed
qed

lemma COLOR_CENTROIDS_length: "length COLOR_CENTROIDS = 6"
  by (simp add: COLOR_CENTROIDS_def)

lemma COLOR_CENTROIDS_labels:
  "map fst COLOR_CENTROIDS = [White, Yellow, Red, Orange, Blue, Green]"
  by (simp add: COLOR_CENTROIDS_def)

lemma nearestCentroid_index:
  "\<exists>i<length COLOR_CENTROIDS. nearestCentroid p = fst (COLOR_CENTROIDS ! i)
      \<and> (\<forall>j<length COLOR_CENTROIDS.
            distance p (snd (COLOR_CENTROIDS ! i)) \<le> distance p (snd (COLOR_CENTROIDS ! j)))
      \<and> (\<forall>j<i. distance p (snd (COLOR_CENTROIDS ! i)) < distance p (snd (COLOR_CENTROIDS ! j)))"
proof -
  have "COLOR_CENTROIDS \<noteq> []"
    by (simp add: COLOR_CENTROIDS_def)
  from closestLoop_invariant[OF this, of p] show ?thesis
    unfolding nearestCentroid_def by force
qed

text \<open>A centroid strictly nearer than every other one is the one selected.\<close>

lemma nearestCentroid_strict:
  assumes own: "(c, pt) \<in> set COLOR_CENTROIDS"
    and strict: "\<And>c' pt'. (c', pt') \<in> set COLOR_CENTROIDS \<Longrightarrow> c' \<noteq> c \<Longrightarrow>
                   distance p pt < distance p pt'"
  shows "nearestCentroid p = c"
proof -
  obtain i where i: "i < length COLOR_CENTROIDS"
    and res: "nearestCentroid p = fst (COLOR_CENTROIDS ! i)"
    and mn: "\<forall>j<length COLOR_CENTROIDS.
               distance p (snd (COLOR_CENTROIDS ! i)) \<le> distance p (snd (COLOR_CENTROIDS ! j))"
    using nearestCentroid_index[of p] by blast
  obtain k where k: "k < length COLOR_CENTROIDS" and entry: "COLOR_CENTROIDS ! k = (c, pt)"
    using own by (auto simp: in_set_conv_nth)
  have le: "distance p (snd (COLOR_CENTROIDS ! i)) \<le> distance p pt"
    using mn k entry by force
  have mem: "(fst (COLOR_CENTROIDS ! i), snd (COLOR_CENTROIDS ! i)) \<in> set COLOR_CENTROIDS"
    using i by simp
  show ?thesis
  proof (rule ccontr)
    assume "nearestCentroid p \<noteq> c"
    then have "fst (COLOR_CENTROIDS ! i) \<noteq> c"
      by (simp add: res)
    from strict[OF mem this] le show False
      by simp
  qed
qed

text \<open>
  Claim C2. For every triple of real numbers \<open>(p0, p1, p2)\<close> the selection
  returns the label of an entry of the centroid table whose Euclidean distance
  to the input, the square root of the sum of the squared coordinate
  differences, is minimal among all six entries and strictly smaller than that
  of every entry before it in the table's order white, yellow, red, orange,
  blue, green. The selection is a total function: the entry exists for every
  input.
\<close>

theorem nearestCentroid_minimal_first:
  fixes p0 p1 p2 :: real
  shows
  "map fst COLOR_CENTROIDS = [White, Yellow, Red, Orange, Blue, Green] \<and>
   (\<exists>i<length COLOR_CENTROIDS. nearestCentroid (p0, p1, p2) = fst (COLOR_CENTROIDS ! i)
      \<and> (\<forall>j<length COLOR_CENTROIDS.
            (case snd (COLOR_CENTROIDS ! i) of
               (c0, c1, c2) \<Rightarrow> sqrt ((p0 - c0)\<^sup>2 + (p1 - c1)\<^sup>2 + (p2 - c2)\<^sup>2))
            \<le> (case snd (COLOR_CENTROIDS ! j) of
                 (c0, c1, c2) \<Rightarrow> sqrt ((p0 - c0)\<^sup>2 + (p1 - c1)\<^sup>2 + (p2 - c2)\<^sup>2)))
      \<and> (\<forall>j<i.
            (case snd (COLOR_CENTROIDS ! i) of
               (c0, c1, c2) \<Rightarrow> sqrt ((p0 - c0)\<^sup>2 + (p1 - c1)\<^sup>2 + (p2 - c2)\<^sup>2))
            < (case snd (COLOR_CENTROIDS ! j) of
                 (c0, c1, c2) \<Rightarrow> sqrt ((p0 - c0)\<^sup>2 + (p1 - c1)\<^sup>2 + (p2 - c2)\<^sup>2))))"
proof -
  have euclid: "distance (p0, p1, p2) c =
      (case c of (c0, c1, c2) \<Rightarrow> sqrt ((p0 - c0)\<^sup>2 + (p1 - c1)\<^sup>2 + (p2 - c2)\<^sup>2))" for c
    by (cases c) (simp add: distance_sq)
  from nearestCentroid_index[of "(p0, p1, p2)"] have
    "\<exists>i<length COLOR_CENTROIDS. nearestCentroid (p0, p1, p2) = fst (COLOR_CENTROIDS ! i)
      \<and> (\<forall>j<length COLOR_CENTROIDS.
            (case snd (COLOR_CENTROIDS ! i) of
               (c0, c1, c2) \<Rightarrow> sqrt ((p0 - c0)\<^sup>2 + (p1 - c1)\<^sup>2 + (p2 - c2)\<^sup>2))
            \<le> (case snd (COLOR_CENTROIDS ! j) of
                 (c0, c1, c2) \<Rightarrow> sqrt ((p0 - c0)\<^sup>2 + (p1 - c1)\<^sup>2 + (p2 - c2)\<^sup>2)))
      \<and> (\<forall>j<i.
            (case snd (COLOR_CENTROIDS ! i) of
               (c0, c1, c2) \<Rightarrow> sqrt ((p0 - c0)\<^sup>2 + (p1 - c1)\<^sup>2 + (p2 - c2)\<^sup>2))
            < (case snd (COLOR_CENTROIDS ! j) of
                 (c0, c1, c2) \<Rightarrow> sqrt ((p0 - c0)\<^sup>2 + (p1 - c1)\<^sup>2 + (p2 - c2)\<^sup>2)))"
    unfolding euclid .
  with COLOR_CENTROIDS_labels show ?thesis
    by (rule conjI)
qed

text \<open>
  The theorem at the point \<open>(60, 0, 0)\<close>: white lies at distance 35 and every
  other centroid beyond 56, so the entry the theorem gives is white.
\<close>

theorem nearestCentroid_minimal_first_witness:
  "nearestCentroid (60, 0, 0) = White"
proof -
  obtain i where i: "i < length COLOR_CENTROIDS"
    and res: "nearestCentroid (60, 0, 0) = fst (COLOR_CENTROIDS ! i)"
    and mn: "\<forall>j<length COLOR_CENTROIDS.
               (case snd (COLOR_CENTROIDS ! i) of
                  (c0, c1, c2) \<Rightarrow> sqrt ((60 - c0)\<^sup>2 + (0 - c1)\<^sup>2 + (0 - c2)\<^sup>2))
               \<le> (case snd (COLOR_CENTROIDS ! j) of
                    (c0, c1, c2) \<Rightarrow> sqrt ((60 - c0)\<^sup>2 + (0 - c1)\<^sup>2 + (0 - c2)\<^sup>2 :: real))"
    using nearestCentroid_minimal_first[of 60 0 0] by blast
  have "(case snd (COLOR_CENTROIDS ! i) of
           (c0, c1, c2) \<Rightarrow> sqrt ((60 - c0)\<^sup>2 + (0 - c1)\<^sup>2 + (0 - c2)\<^sup>2))
        \<le> (case snd (COLOR_CENTROIDS ! 0) of
             (c0, c1, c2) \<Rightarrow> sqrt ((60 - c0)\<^sup>2 + (0 - c1)\<^sup>2 + (0 - c2)\<^sup>2 :: real))"
    using mn by (simp add: COLOR_CENTROIDS_length)
  then have le: "(case snd (COLOR_CENTROIDS ! i) of
           (c0, c1, c2) \<Rightarrow> sqrt ((60 - c0)\<^sup>2 + (0 - c1)\<^sup>2 + (0 - c2)\<^sup>2 :: real)) \<le> 35"
    by (simp add: COLOR_CENTROIDS_def)
  have "i = 0 \<or> i = 1 \<or> i = 2 \<or> i = 3 \<or> i = 4 \<or> i = 5"
    using i by (simp add: COLOR_CENTROIDS_length) arith
  then have "i = 0"
  proof (elim disjE)
    assume "i = 1"
    with le have "sqrt 7125 \<le> sqrt (35\<^sup>2)"
      by (simp add: COLOR_CENTROIDS_def)
    then show ?thesis by (simp only: real_sqrt_le_iff) simp
  next
    assume "i = 2"
    with le have "sqrt 5850 \<le> sqrt (35\<^sup>2)"
      by (simp add: COLOR_CENTROIDS_def)
    then show ?thesis by (simp only: real_sqrt_le_iff) simp
  next
    assume "i = 3"
    with le have "sqrt 6275 \<le> sqrt (35\<^sup>2)"
      by (simp add: COLOR_CENTROIDS_def)
    then show ?thesis by (simp only: real_sqrt_le_iff) simp
  next
    assume "i = 4"
    with le have "sqrt 3225 \<le> sqrt (35\<^sup>2)"
      by (simp add: COLOR_CENTROIDS_def)
    then show ?thesis by (simp only: real_sqrt_le_iff) simp
  next
    assume "i = 5"
    with le have "sqrt 4125 \<le> sqrt (35\<^sup>2)"
      by (simp add: COLOR_CENTROIDS_def)
    then show ?thesis by (simp only: real_sqrt_le_iff) simp
  qed simp
  then show ?thesis
    by (simp add: res COLOR_CENTROIDS_def)
qed

text \<open>
  Claim C8. Every result of \<^verbatim>\<open>getClosestColor\<close>, and of its selection on any
  point, is the label of an entry of \<^verbatim>\<open>COLOR_CENTROIDS\<close>, hence one of the six
  labels; the table has exactly six entries, its labels are pairwise different,
  and they are the six labels of the type \<^verbatim>\<open>Color\<close>.
\<close>

theorem classification_label_invariant:
  "getClosestColor r g b \<in> fst ` set COLOR_CENTROIDS \<and>
   nearestCentroid p \<in> fst ` set COLOR_CENTROIDS \<and>
   length COLOR_CENTROIDS = 6 \<and>
   distinct (map fst COLOR_CENTROIDS) \<and>
   fst ` set COLOR_CENTROIDS = {White, Yellow, Red, Orange, Blue, Green} \<and>
   (UNIV :: Color set) = {White, Yellow, Red, Orange, Blue, Green}"
proof -
  have sel: "nearestCentroid q \<in> fst ` set COLOR_CENTROIDS" for q
  proof -
    obtain i where "i < length COLOR_CENTROIDS" "nearestCentroid q = fst (COLOR_CENTROIDS ! i)"
      using nearestCentroid_index[of q] by blast
    then show ?thesis
      by (metis image_eqI nth_mem)
  qed
  have univ: "(UNIV :: Color set) = {White, Yellow, Red, Orange, Blue, Green}"
  proof -
    have "c \<in> {White, Yellow, Red, Orange, Blue, Green}" for c
      by (cases c) simp_all
    then show ?thesis by blast
  qed
  have labels: "fst ` set COLOR_CENTROIDS = {White, Yellow, Red, Orange, Blue, Green}"
    by (simp add: COLOR_CENTROIDS_def)
  have "distinct (map fst COLOR_CENTROIDS)"
    by (simp add: COLOR_CENTROIDS_def)
  with sel[of p] sel[of "rgbToLab r g b"] univ labels show ?thesis
    by (simp add: getClosestColor_def COLOR_CENTROIDS_length)
qed


text \<open>
  Claim C5. The selection applied to the reference centroid of a label returns
  that label, for each of the six entries of the table.
\<close>

theorem nearestCentroid_idempotent_on_centroids:
  "\<forall>(c, pt) \<in> set COLOR_CENTROIDS. nearestCentroid pt = c"
proof -
  have "nearestCentroid pt = c" if "(c, pt) \<in> set COLOR_CENTROIDS" for c pt
  proof (rule nearestCentroid_strict[OF that])
    fix c' pt'
    assume "(c', pt') \<in> set COLOR_CENTROIDS" "c' \<noteq> c"
    with that show "distance pt pt < distance pt pt'"
      by (auto simp: COLOR_CENTROIDS_def distance_sq)
  qed
  then show ?thesis by blast
qed

theorem nearestCentroid_idempotent_on_centroids_witness:
  "(Blue, (35, 10, -50)) \<in> set COLOR_CENTROIDS \<and> nearestCentroid (35, 10, -50) = Blue"
proof -
  have mem: "(Blue, (35, 10, -50)) \<in> set COLOR_CENTROIDS"
    by (simp add: COLOR_CENTROIDS_def)
  with nearestCentroid_idempotent_on_centroids show ?thesis
    by blast
qed

section \<open>Recording a face\<close>

lemma faceKeys_others:
  "faceKey \<in> set faceKeys \<Longrightarrow> card (set faceKeys - {faceKey}) = 5"
  by (auto simp: faceKeys_def insert_Diff_if)

text \<open>
  Claim C10. Recording a face under one of the six face keys leaves the entry
  of every other key as it was in the prior state; among the six face keys
  these are the five other faces. The entry at the key itself becomes the new
  face.
\<close>

theorem handleFaceScan_frame:
  assumes "faceKey \<in> set faceKeys"
  shows "(\<forall>k. k \<noteq> faceKey \<longrightarrow> handleFaceScan faceKey faceData prev k = prev k) \<and>
         (\<forall>k \<in> set faceKeys - {faceKey}. handleFaceScan faceKey faceData prev k = prev k) \<and>
         card (set faceKeys - {faceKey}) = 5 \<and>
         handleFaceScan faceKey faceData prev faceKey = Some faceData"
  using faceKeys_others[OF assms] by (simp add: handleFaceScan_def)

theorem handleFaceScan_frame_witness:
  "''U'' \<in> set faceKeys \<and>
   ''D'' \<in> set faceKeys - {''U''} \<and>
   handleFaceScan ''U'' (createFace Red) INITIAL_CUBE_STATE ''D'' = Some (createFace Yellow) \<and>
   handleFaceScan ''U'' (createFace Red) INITIAL_CUBE_STATE ''U'' = Some (createFace Red)"
proof -
  have key: "''U'' \<in> set faceKeys"
    by (simp add: faceKeys_def)
  have other: "''D'' \<in> set faceKeys - {''U''}"
    by (simp add: faceKeys_def)
  have prior: "INITIAL_CUBE_STATE ''D'' = Some (createFace Yellow)"
    by (simp add: INITIAL_CUBE_STATE_def)
  from handleFaceScan_frame[OF key, of "createFace Red" INITIAL_CUBE_STATE] other prior key
  show ?thesis
    by auto
qed

section \<open>The colour sampler\<close>

lemma sumChannels_pixels:
  "length imgData = 4 * n \<Longrightarrow> m \<le> n \<Longrightarrow>
   sumChannels imgData (4 * m) (Some r, Some g, Some b) =
     (Some (r + (\<Sum>k = m..<n. real (unat (imgData ! (4 * k))))),
      Some (g + (\<Sum>k = m..<n. real (unat (imgData ! (4 * k + 1))))),
      Some (b + (\<Sum>k = m..<n. real (unat (imgData ! (4 * k + 2))))))"
proof (induction "n - m" arbitrary: m r g b)
  case 0
  then have "m = n" by simp
  with 0 show ?case
    by (subst sumChannels.simps) simp
next
  case (Suc d)
  then have lt: "m < n" by simp
  have step: "sumChannels imgData (4 * m) (Some r, Some g, Some b) =
      sumChannels imgData (4 * Suc m)
        (Some (r + real (unat (imgData ! (4 * m)))),
         Some (g + real (unat (imgData ! (4 * m + 1)))),
         Some (b + real (unat (imgData ! (4 * m + 2)))))"
    using lt Suc.prems(1) by (subst sumChannels.simps) (simp add: readByte_def ac_simps)
  have "d = n - Suc m" "Suc m \<le> n"
    using Suc.hyps(2) lt by simp_all
  from Suc.hyps(1)[OF this(1) Suc.prems(1) this(2)] step lt show ?case
    by (simp add: sum.atLeast_Suc_lessThan add.assoc)
qed

lemma averageRegion_mean:
  assumes "length imgData = 4 * n" "0 < n"
  shows "averageRegion imgData =
     (Some ((\<Sum>k<n. real (unat (imgData ! (4 * k)))) / real n),
      Some ((\<Sum>k<n. real (unat (imgData ! (4 * k + 1)))) / real n),
      Some ((\<Sum>k<n. real (unat (imgData ! (4 * k + 2)))) / real n))"
proof -
  have "sumChannels imgData 0 (Some 0, Some 0, Some 0) =
     (Some (\<Sum>k<n. real (unat (imgData ! (4 * k)))),
      Some (\<Sum>k<n. real (unat (imgData ! (4 * k + 1)))),
      Some (\<Sum>k<n. real (unat (imgData ! (4 * k + 2)))))"
    using sumChannels_pixels[OF assms(1), of 0 0 0 0] by (simp add: lessThan_atLeast0)
  then show ?thesis
    using assms by (simp add: averageRegion_def divNum_def)
qed

lemma averageRegion_uniform:
  assumes "length imgData = 4 * n" "0 < n"
    and "\<forall>k<n. imgData ! (4 * k) = r \<and> imgData ! (4 * k + 1) = g \<and> imgData ! (4 * k + 2) = b"
  shows "averageRegion imgData = (Some (real (unat r)), Some (real (unat g)), Some (real (unat b)))"
  using assms by (simp add: averageRegion_mean[OF assms(1,2)])

lemma detectedFace_cells:
  "length (detectedFace canvas) = 3 \<and>
   (\<forall>row<3. length (detectedFace canvas ! row) = 3) \<and>
   (\<forall>row<3. \<forall>col<3. detectedFace canvas ! row ! col =
       classifySample (averageRegion
         (getImageData canvas (sampleX canvas col - 5) (sampleY canvas row - 5) 10 10)))"
  by (simp add: detectedFace_def sampleCell_def Let_def)

text \<open>
  Claim C7. On a buffer of \<open>n > 0\<close> whole pixels the sampler returns, per channel,
  the sum of that channel over all \<open>n\<close> pixels divided by \<open>n\<close>; on a 10 by 10
  window (400 bytes) whose pixels all have the channels \<open>r\<close>, \<open>g\<close>, \<open>b\<close> it returns
  exactly these; and the detected face is a 3 by 3 grid of nine cells, each the
  classification of the average of its own 10 by 10 window, which is the face
  that a scan with fewer than six captured faces reports.
\<close>

theorem sampler_mean_and_nine_samples:
  "(\<forall>n. length imgData = 4 * n \<and> 0 < n \<longrightarrow>
      averageRegion imgData =
        (Some ((\<Sum>k<n. real (unat (imgData ! (4 * k)))) / real n),
         Some ((\<Sum>k<n. real (unat (imgData ! (4 * k + 1)))) / real n),
         Some ((\<Sum>k<n. real (unat (imgData ! (4 * k + 2)))) / real n))) \<and>
   (length imgData = 4 * (10 * 10) \<and>
    (\<forall>k<10 * 10. imgData ! (4 * k) = r \<and> imgData ! (4 * k + 1) = g \<and> imgData ! (4 * k + 2) = b) \<longrightarrow>
      averageRegion imgData = (Some (real (unat r)), Some (real (unat g)), Some (real (unat b)))) \<and>
   length (detectedFace canvas) = 3 \<and>
   (\<forall>row<3. length (detectedFace canvas ! row) = 3) \<and>
   length (concat (detectedFace canvas)) = 9 \<and>
   (\<forall>row<3. \<forall>col<3. detectedFace canvas ! row ! col =
       classifySample (averageRegion
         (getImageData canvas (sampleX canvas col - 5) (sampleY canvas row - 5) 10 10))) \<and>
   (length capturedFaces < 6 \<longrightarrow>
      captureFace (Some canvas) capturedFaces =
        Some ((faceKeys ! length capturedFaces, detectedFace canvas),
              capturedFaces @ [faces ! length capturedFaces]))"
proof -
  have scan: "length capturedFaces < 6 \<longrightarrow>
      captureFace (Some canvas) capturedFaces =
        Some ((faceKeys ! length capturedFaces, detectedFace canvas),
              capturedFaces @ [faces ! length capturedFaces])"
    by (simp add: captureFace_def)
  have nine: "length (concat (detectedFace canvas)) = 9"
    by (simp add: detectedFace_def length_concat comp_def sum_list_triv)
  have uniform: "length imgData = 4 * (10 * 10) \<and>
    (\<forall>k<10 * 10. imgData ! (4 * k) = r \<and> imgData ! (4 * k + 1) = g \<and> imgData ! (4 * k + 2) = b) \<longrightarrow>
      averageRegion imgData = (Some (real (unat r)), Some (real (unat g)), Some (real (unat b)))"
    using averageRegion_uniform[of imgData "10 * 10" r g b] by simp
  have mean: "\<forall>n. length imgData = 4 * n \<and> 0 < n \<longrightarrow>
      averageRegion imgData =
        (Some ((\<Sum>k<n. real (unat (imgData ! (4 * k)))) / real n),
         Some ((\<Sum>k<n. real (unat (imgData ! (4 * k + 1)))) / real n),
         Some ((\<Sum>k<n. real (unat (imgData ! (4 * k + 2)))) / real n))"
    using averageRegion_mean[of imgData] by blast
  have cells:
    "length (detectedFace canvas) = 3"
    "\<forall>row<3. length (detectedFace canvas ! row) = 3"
    "\<forall>row<3. \<forall>col<3. detectedFace canvas ! row ! col =
       classifySample (averageRegion
         (getImageData canvas (sampleX canvas col - 5) (sampleY canvas row - 5) 10 10))"
    using detectedFace_cells[of canvas] by blast+
  from mean uniform cells nine scan show ?thesis
    by - (intro conjI; assumption)
qed

text \<open>
  A frame of 1280 by 720 whose every byte is 200: each window is uniform, its
  average is (200, 200, 200), the cell in row 1, column 2 is the
  classification of that average, and the first scan reports its face under
  the key F.
\<close>

theorem sampler_mean_and_nine_samples_witness:
  "length (replicate 400 (200 :: 8 word)) = 4 * (10 * 10) \<and>
   replicate 400 (200 :: 8 word) ! (4 * 99 + 2) = 200 \<and>
   averageRegion (replicate 400 200) = (Some 200, Some 200, Some 200) \<and>
   detectedFace \<lparr>width = 1280, height = 720, getImageData = (\<lambda>sx sy sw sh. replicate 400 200)\<rparr> ! 1 ! 2 =
     getClosestColor 200 200 200 \<and>
   map_option (fst \<circ> fst)
     (captureFace (Some \<lparr>width = 1280, height = 720, getImageData = (\<lambda>sx sy sw sh. replicate 400 200)\<rparr>) []) =
     Some ''F''"
proof -
  let ?d = "replicate 400 (200 :: 8 word)"
  let ?cv = "\<lparr>width = 1280, height = 720, getImageData = (\<lambda>sx sy sw sh. ?d)\<rparr>"
  have len: "length ?d = 4 * (10 * 10)"
    by simp
  have px: "\<forall>k<10 * 10. ?d ! (4 * k) = 200 \<and> ?d ! (4 * k + 1) = 200 \<and> ?d ! (4 * k + 2) = 200"
    by simp
  note inst = sampler_mean_and_nine_samples[of ?d 200 200 200 ?cv "[]"]
  from inst len px have avg: "averageRegion ?d = (Some 200, Some 200, Some 200)"
    by simp
  from inst have "detectedFace ?cv ! 1 ! 2 = classifySample (averageRegion (getImageData ?cv
        (sampleX ?cv 2 - 5) (sampleY ?cv 1 - 5) 10 10))"
    by simp
  then have "detectedFace ?cv ! 1 ! 2 = getClosestColor 200 200 200"
    by (simp add: avg)
  moreover from inst have "map_option (fst \<circ> fst) (captureFace (Some ?cv) []) = Some ''F''"
    by (simp add: faceKeys_def)
  ultimately show ?thesis
    using len px avg by simp
qed


section \<open>The colour-space converter\<close>

lemma rgbToLab_unfold:
  "rgbToLab r g b =
     (let rl = srgbLinear (r / 255); gl = srgbLinear (g / 255); bl = srgbLinear (b / 255);
          fx = labCurve ((rl * 0.4124 + gl * 0.3576 + bl * 0.1805) * 100 / 95.047);
          fy = labCurve ((rl * 0.2126 + gl * 0.7152 + bl * 0.0722) * 100 / 100.000);
          fz = labCurve ((rl * 0.0193 + gl * 0.1192 + bl * 0.9505) * 100 / 108.883)
      in ((116 * fy) - 16, 500 * (fx - fy), 200 * (fy - fz)))"
  unfolding rgbToLab_def srgbLinear_def labCurve_def Let_def by (rule refl)

lemma spec_gamma_normalize: "spec_gamma (spec_normalize c) = srgbLinear (c / 255)"
  by (simp add: spec_gamma_def spec_normalize_def srgbLinear_def not_le)

lemma spec_cuberoot_labCurve: "spec_cuberoot t = labCurve t"
proof (cases "t > 0.008856")
  case True
  then have "0 < t" by simp
  then have "root 3 t = t powr (1 / 3)"
    using root_powr_inverse[of 3 t] by simp
  with True show ?thesis
    by (simp add: spec_cuberoot_def labCurve_def)
next
  case False
  then show ?thesis
    by (simp add: spec_cuberoot_def labCurve_def)
qed

text \<open>
  Claim C1. The converter of the source computes, for all channel values and
  so for the 8-bit ones, what the pipeline of the specification computes:
  normalisation by 255, the piecewise gamma expansion with threshold 0.04045,
  the linear combination with the fixed matrix, the division by the white point
  (95.047, 100.000, 108.883), the piecewise cube root with threshold 0.008856,
  and the final formulas \<open>(116 fy - 16, 500 (fx - fy), 200 (fy - fz))\<close>.
\<close>

theorem rgbToLab_refines_spec:
  "rgbToLab r g b = spec_rgbToLab r g b"
proof -
  have row: "spec_row (100 * m0, 100 * m1, 100 * m2) (v0, v1, v2) = (v0 * m0 + v1 * m1 + v2 * m2) * 100"
    for m0 m1 m2 v0 v1 v2 :: real
    by (simp add: algebra_simps)
  show ?thesis
    unfolding rgbToLab_unfold spec_rgbToLab_def spec_matrix_def spec_white_def
      spec_gamma_normalize spec_combine.simps spec_divide.simps row spec_cuberoot_labCurve
    by (simp add: Let_def)
qed

subsection \<open>Bounds on the two piecewise curves\<close>

lemma powr_12_5_lower:
  fixes u lo :: real
  assumes "0 \<le> lo" "0 < u" "lo ^ 5 \<le> u ^ 12"
  shows "lo \<le> u powr 2.4"
proof -
  have "lo = (lo ^ 5) powr (1 / 5)"
    using assms(1) by (simp add: powr_powr flip: powr_numeral)
  also have "\<dots> \<le> (u ^ 12) powr (1 / 5)"
    using assms by (intro powr_mono2) simp_all
  also have "\<dots> = u powr 2.4"
    using assms(2) by (simp add: powr_powr flip: powr_numeral)
  finally show ?thesis .
qed

lemma powr_12_5_upper:
  fixes u hi :: real
  assumes "0 \<le> hi" "0 < u" "u ^ 12 \<le> hi ^ 5"
  shows "u powr 2.4 \<le> hi"
proof -
  have "u powr 2.4 = (u ^ 12) powr (1 / 5)"
    using assms(2) by (simp add: powr_powr flip: powr_numeral)
  also have "\<dots> \<le> (hi ^ 5) powr (1 / 5)"
    using assms by (intro powr_mono2) simp_all
  also have "\<dots> = hi"
    using assms(1) by (simp add: powr_powr flip: powr_numeral)
  finally show ?thesis .
qed

lemma cbrt_lower:
  fixes t lo :: real
  assumes "0 \<le> lo" "lo ^ 3 \<le> t"
  shows "lo \<le> t powr (1 / 3)"
proof -
  have "lo = (lo ^ 3) powr (1 / 3)"
    using assms(1) by (simp add: powr_powr flip: powr_numeral)
  also have "\<dots> \<le> t powr (1 / 3)"
    using assms by (intro powr_mono2) simp_all
  finally show ?thesis .
qed

lemma cbrt_upper:
  fixes t hi :: real
  assumes "0 \<le> hi" "0 \<le> t" "t \<le> hi ^ 3"
  shows "t powr (1 / 3) \<le> hi"
proof -
  have "t powr (1 / 3) \<le> (hi ^ 3) powr (1 / 3)"
    using assms by (intro powr_mono2) simp_all
  also have "\<dots> = hi"
    using assms(1) by (simp add: powr_powr flip: powr_numeral)
  finally show ?thesis .
qed

lemma srgbLinear_enclose:
  assumes "0.04045 < v" "0 \<le> lo" "lo ^ 5 \<le> ((v + 0.055) / 1.055) ^ 12"
    and "((v + 0.055) / 1.055) ^ 12 \<le> hi ^ 5" "0 \<le> hi"
  shows "lo \<le> srgbLinear v \<and> srgbLinear v \<le> hi"
proof -
  have pos: "0 < (v + 0.055) / 1.055"
    using assms(1) by simp
  have "srgbLinear v = ((v + 0.055) / 1.055) powr 2.4"
    using assms(1) by (simp add: srgbLinear_def)
  with powr_12_5_lower[OF assms(2) pos assms(3)] powr_12_5_upper[OF assms(5) pos assms(4)]
  show ?thesis by simp
qed

lemma labCurve_enclose:
  assumes "0.008856 < tlo" "tlo \<le> t" "t \<le> thi"
    and "0 \<le> lo" "lo ^ 3 \<le> tlo" "thi \<le> hi ^ 3" "0 \<le> hi"
  shows "lo \<le> labCurve t \<and> labCurve t \<le> hi"
proof -
  have t: "0.008856 < t" "0 \<le> t"
    using assms(1,2) by simp_all
  have "labCurve t = t powr (1 / 3)"
    using t(1) by (simp add: labCurve_def)
  moreover have "lo \<le> t powr (1 / 3)"
    using assms(2,4,5) by (intro cbrt_lower) simp_all
  moreover have "t powr (1 / 3) \<le> hi"
    using assms(3,6,7) t(2) by (intro cbrt_upper) simp_all
  ultimately show ?thesis by simp
qed

lemma srgbLinear_unit:
  assumes "0 \<le> v" "v \<le> 1"
  shows "0 \<le> srgbLinear v \<and> srgbLinear v \<le> 1"
proof (cases "v > 0.04045")
  case True
  have "\<bar>(v + 0.055) / 1.055\<bar> \<le> 1"
    using assms by simp
  then have "((v + 0.055) / 1.055) powr 2.4 \<le> 1"
    by (intro powr_le1) simp_all
  with True show ?thesis
    by (simp add: srgbLinear_def)
next
  case False
  with assms show ?thesis
    by (simp add: srgbLinear_def)
qed

lemma labCurve_unit:
  assumes "0 \<le> t" "t \<le> 1"
  shows "16 / 116 \<le> labCurve t \<and> labCurve t \<le> 1"
proof (cases "t > 0.008856")
  case True
  have "(16 / 116 :: real) ^ 3 \<le> t"
    using True by (simp add: power_divide)
  then have "16 / 116 \<le> t powr (1 / 3)"
    by (intro cbrt_lower) simp_all
  moreover have "t powr (1 / 3) \<le> 1"
    using assms by (intro powr_le1) simp_all
  ultimately show ?thesis
    using True by (simp add: labCurve_def)
next
  case False
  with assms show ?thesis
    by (simp add: labCurve_def)
qed

lemma lightness_bounds:
  assumes "0 \<le> r" "r \<le> 255" "0 \<le> g" "g \<le> 255" "0 \<le> b" "b \<le> 255"
  shows "0 \<le> fst (rgbToLab r g b) \<and> fst (rgbToLab r g b) \<le> 100"
proof -
  define rl gl bl where "rl = srgbLinear (r / 255)" and "gl = srgbLinear (g / 255)"
    and "bl = srgbLinear (b / 255)"
  have rl: "0 \<le> rl" "rl \<le> 1"
    using srgbLinear_unit[of "r / 255"] assms(1,2) by (simp_all add: rl_def)
  have gl: "0 \<le> gl" "gl \<le> 1"
    using srgbLinear_unit[of "g / 255"] assms(3,4) by (simp_all add: gl_def)
  have bl: "0 \<le> bl" "bl \<le> 1"
    using srgbLinear_unit[of "b / 255"] assms(5,6) by (simp_all add: bl_def)
  define y where "y = (rl * 0.2126 + gl * 0.7152 + bl * 0.0722) * 100 / 100"
  have y: "0 \<le> y" "y \<le> 1"
    using rl gl bl by (simp_all add: y_def)
  have "fst (rgbToLab r g b) = 116 * labCurve y - 16"
    by (simp add: rgbToLab_unfold Let_def y_def rl_def gl_def bl_def)
  with labCurve_unit[OF y] show ?thesis
    by simp
qed

lemma byte_range: "0 \<le> real (unat (w :: 8 word)) \<and> real (unat w) \<le> 255"
proof -
  have "unat w < 2 ^ LENGTH(8)"
    by (rule unsigned_less)
  then have "unat w \<le> 255"
    by simp
  then have "real (unat w) \<le> real 255"
    by (rule of_nat_mono)
  then show ?thesis
    by (simp del: of_nat_unat)
qed

text \<open>
  Claim C3. For every 8-bit RGB triple the lightness coordinate of the
  converter's output lies in the closed interval from 0 to 100; the same holds
  for all real channel values between 0 and 255, such as the averages the
  sampler produces.
\<close>

theorem rgbToLab_lightness_range:
  fixes r8 g8 b8 :: "8 word"
  shows "0 \<le> fst (rgbToLab (real (unat r8)) (real (unat g8)) (real (unat b8))) \<and>
    fst (rgbToLab (real (unat r8)) (real (unat g8)) (real (unat b8))) \<le> 100 \<and>
    (0 \<le> r \<and> r \<le> 255 \<and> 0 \<le> g \<and> g \<le> 255 \<and> 0 \<le> b \<and> b \<le> 255 \<longrightarrow>
       0 \<le> fst (rgbToLab r g b) \<and> fst (rgbToLab r g b) \<le> 100)"
  using lightness_bounds[of r g b] byte_range[of r8] byte_range[of g8] byte_range[of b8]
    lightness_bounds[of "real (unat r8)" "real (unat g8)" "real (unat b8)"]
  by blast

theorem rgbToLab_lightness_range_witness:
  "0 \<le> fst (rgbToLab 128 64 200) \<and> fst (rgbToLab 128 64 200) \<le> 100"
  using rgbToLab_lightness_range[of _ _ _ 128 64 200] by simp

section \<open>Classification of the canonical colours\<close>

text \<open>
  A point that lies in a box around one centroid, while each other centroid is
  far away in at least one coordinate, is strictly nearer to the first.
\<close>

lemma strictly_closer:
  fixes p0 p1 p2 c0 c1 c2 d0 d1 d2 e0 e1 e2 \<delta> :: real
  assumes box: "\<bar>p0 - c0\<bar> \<le> e0" "\<bar>p1 - c1\<bar> \<le> e1" "\<bar>p2 - c2\<bar> \<le> e2"
    and gap: "0 \<le> \<delta>" "e0\<^sup>2 + e1\<^sup>2 + e2\<^sup>2 < \<delta>\<^sup>2"
    and far: "\<delta> \<le> \<bar>p0 - d0\<bar> \<or> \<delta> \<le> \<bar>p1 - d1\<bar> \<or> \<delta> \<le> \<bar>p2 - d2\<bar>"
  shows "distance (p0, p1, p2) (c0, c1, c2) < distance (p0, p1, p2) (d0, d1, d2)"
proof -
  have sq: "x\<^sup>2 \<le> e\<^sup>2" if "\<bar>x\<bar> \<le> e" for x e :: real
  proof -
    from that have "\<bar>x\<bar> \<le> \<bar>e\<bar>" by simp
    then show ?thesis by (simp only: abs_le_square_iff)
  qed
  have near: "(p0 - c0)\<^sup>2 + (p1 - c1)\<^sup>2 + (p2 - c2)\<^sup>2 \<le> e0\<^sup>2 + e1\<^sup>2 + e2\<^sup>2"
    using sq[OF box(1)] sq[OF box(2)] sq[OF box(3)] by linarith
  have big: "\<delta>\<^sup>2 \<le> x\<^sup>2" if "\<delta> \<le> \<bar>x\<bar>" for x :: real
  proof -
    from that gap(1) have "\<bar>\<delta>\<bar> \<le> \<bar>x\<bar>" by simp
    then show ?thesis by (simp only: abs_le_square_iff)
  qed
  have "\<delta>\<^sup>2 \<le> (p0 - d0)\<^sup>2 + (p1 - d1)\<^sup>2 + (p2 - d2)\<^sup>2"
  proof -
    have nn: "0 \<le> (p0 - d0)\<^sup>2" "0 \<le> (p1 - d1)\<^sup>2" "0 \<le> (p2 - d2)\<^sup>2"
      by simp_all
    from far show ?thesis
    proof (elim disjE)
      assume "\<delta> \<le> \<bar>p0 - d0\<bar>"
      from big[OF this] nn show ?thesis by linarith
    next
      assume "\<delta> \<le> \<bar>p1 - d1\<bar>"
      from big[OF this] nn show ?thesis by linarith
    next
      assume "\<delta> \<le> \<bar>p2 - d2\<bar>"
      from big[OF this] nn show ?thesis by linarith
    qed
  qed
  with near gap(2) show ?thesis
    by (simp add: distance_sq)
qed

lemma nearest_in_box:
  fixes p0 p1 p2 c0 c1 c2 e0 e1 e2 \<delta> :: real
  assumes own: "(c, (c0, c1, c2)) \<in> set COLOR_CENTROIDS"
    and box: "\<bar>p0 - c0\<bar> \<le> e0" "\<bar>p1 - c1\<bar> \<le> e1" "\<bar>p2 - c2\<bar> \<le> e2"
    and gap: "0 \<le> \<delta>" "e0\<^sup>2 + e1\<^sup>2 + e2\<^sup>2 < \<delta>\<^sup>2"
    and far: "\<And>c' d0 d1 d2. (c', (d0, d1, d2)) \<in> set COLOR_CENTROIDS \<Longrightarrow> c' \<noteq> c \<Longrightarrow>
                \<delta> \<le> \<bar>p0 - d0\<bar> \<or> \<delta> \<le> \<bar>p1 - d1\<bar> \<or> \<delta> \<le> \<bar>p2 - d2\<bar>"
  shows "nearestCentroid (p0, p1, p2) = c"
proof (rule nearestCentroid_strict[OF own])
  fix c' pt'
  assume other: "(c', pt') \<in> set COLOR_CENTROIDS" "c' \<noteq> c"
  obtain d0 d1 d2 where pt': "pt' = (d0, d1, d2)"
    by (cases pt')
  from far[OF other(1)[unfolded pt'] other(2)]
  show "distance (p0, p1, p2) (c0, c1, c2) < distance (p0, p1, p2) pt'"
    unfolding pt' by (rule strictly_closer[OF box gap])
qed

subsection \<open>Enclosures of the linearised channel values\<close>

lemma srgbLinear_0: "0 \<le> srgbLinear (0 / 255) \<and> srgbLinear (0 / 255) \<le> 0"
  by (simp add: srgbLinear_def)

lemma srgbLinear_255: "1 \<le> srgbLinear (255 / 255) \<and> srgbLinear (255 / 255) \<le> 1"
  by (simp add: srgbLinear_def)

lemma srgbLinear_22:
  "0.0080 \<le> srgbLinear (22 / 255) \<and> srgbLinear (22 / 255) \<le> 0.0081"
  by (rule srgbLinear_enclose) (simp_all add: power_divide)

lemma srgbLinear_37:
  "0.0185 \<le> srgbLinear (37 / 255) \<and> srgbLinear (37 / 255) \<le> 0.0186"
  by (rule srgbLinear_enclose) (simp_all add: power_divide)

lemma srgbLinear_38:
  "0.0193 \<le> srgbLinear (38 / 255) \<and> srgbLinear (38 / 255) \<le> 0.0194"
  by (rule srgbLinear_enclose) (simp_all add: power_divide)

lemma srgbLinear_74:
  "0.0684 \<le> srgbLinear (74 / 255) \<and> srgbLinear (74 / 255) \<le> 0.0685"
  by (rule srgbLinear_enclose) (simp_all add: power_divide)

lemma srgbLinear_99:
  "0.1247 \<le> srgbLinear (99 / 255) \<and> srgbLinear (99 / 255) \<le> 0.1248"
  by (rule srgbLinear_enclose) (simp_all add: power_divide)

lemma srgbLinear_115:
  "0.1714 \<le> srgbLinear (115 / 255) \<and> srgbLinear (115 / 255) \<le> 0.1715"
  by (rule srgbLinear_enclose) (simp_all add: power_divide)

lemma srgbLinear_163:
  "0.3662 \<le> srgbLinear (163 / 255) \<and> srgbLinear (163 / 255) \<le> 0.3663"
  by (rule srgbLinear_enclose) (simp_all add: power_divide)

lemma srgbLinear_215:
  "0.6795 \<le> srgbLinear (215 / 255) \<and> srgbLinear (215 / 255) \<le> 0.6796"
  by (rule srgbLinear_enclose) (simp_all add: power_divide)

lemma srgbLinear_220:
  "0.7156 \<le> srgbLinear (220 / 255) \<and> srgbLinear (220 / 255) \<le> 0.7157"
  by (rule srgbLinear_enclose) (simp_all add: power_divide)

lemma srgbLinear_235:
  "0.8307 \<le> srgbLinear (235 / 255) \<and> srgbLinear (235 / 255) \<le> 0.8308"
  by (rule srgbLinear_enclose) (simp_all add: power_divide)

lemma srgbLinear_249:
  "0.9473 \<le> srgbLinear (249 / 255) \<and> srgbLinear (249 / 255) \<le> 0.9474"
  by (rule srgbLinear_enclose) (simp_all add: power_divide)

subsection \<open>The six entries of \<^verbatim>\<open>COLOR_MAP\<close>\<close>

lemma getClosestColor_White: "getClosestColor 255 255 255 = White"
proof -
  define rl gl bl where "rl = srgbLinear (255 / 255)" and "gl = srgbLinear (255 / 255)"
    and "bl = srgbLinear (255 / 255)"
  have rl: "1.0000 \<le> rl" "rl \<le> 1.0000"
    using srgbLinear_255 by (simp_all add: rl_def)
  have gl: "1.0000 \<le> gl" "gl \<le> 1.0000"
    using srgbLinear_255 by (simp_all add: gl_def)
  have bl: "1.0000 \<le> bl" "bl \<le> 1.0000"
    using srgbLinear_255 by (simp_all add: bl_def)
  define x y z where "x = (rl * 0.4124 + gl * 0.3576 + bl * 0.1805) * 100 / 95.047"
    and "y = (rl * 0.2126 + gl * 0.7152 + bl * 0.0722) * 100 / 100.000"
    and "z = (rl * 0.0193 + gl * 0.1192 + bl * 0.9505) * 100 / 108.883"
  have x: "1.00003 \<le> x" "x \<le> 1.00004"
    using rl gl bl by (simp_all add: x_def)
  have y: "1.00000 \<le> y" "y \<le> 1.00000"
    using rl gl bl by (simp_all add: y_def)
  have z: "1.00015 \<le> z" "z \<le> 1.00016"
    using rl gl bl by (simp_all add: z_def)
  define fx fy fz where "fx = labCurve x" and "fy = labCurve y" and "fz = labCurve z"
  have "1.0000 \<le> labCurve x \<and> labCurve x \<le> 1.0001"
    by (rule labCurve_enclose[OF _ x]) (simp_all add: power_divide)
  then have fx: "1.0000 \<le> fx" "fx \<le> 1.0001"
    by (simp_all add: fx_def)
  have "0.9999 \<le> labCurve y \<and> labCurve y \<le> 1.0001"
    by (rule labCurve_enclose[OF _ y]) (simp_all add: power_divide)
  then have fy: "0.9999 \<le> fy" "fy \<le> 1.0001"
    by (simp_all add: fy_def)
  have "1.0000 \<le> labCurve z \<and> labCurve z \<le> 1.0001"
    by (rule labCurve_enclose[OF _ z]) (simp_all add: power_divide)
  then have fz: "1.0000 \<le> fz" "fz \<le> 1.0001"
    by (simp_all add: fz_def)
  have lab: "rgbToLab 255 255 255 = (116 * fy - 16, 500 * (fx - fy), 200 * (fy - fz))"
    unfolding rgbToLab_unfold Let_def fx_def fy_def fz_def x_def y_def z_def rl_def gl_def bl_def
    by (rule refl)
  have "nearestCentroid (116 * fy - 16, 500 * (fx - fy), 200 * (fy - fz)) = White"
  proof (rule nearest_in_box[where ?c0.0 = "95" and ?c1.0 = "0" and ?c2.0 = "0"
        and ?e0.0 = "5.2" and ?e1.0 = "0.2" and ?e2.0 = "0.2" and \<delta> = 49])
    show "(White, (95, 0, 0)) \<in> set COLOR_CENTROIDS"
      by (simp add: COLOR_CENTROIDS_def)
    show "\<bar>116 * fy - 16 - 95\<bar> \<le> 5.2"
      unfolding abs_le_iff using fy by simp
    show "\<bar>500 * (fx - fy) - 0\<bar> \<le> 0.2"
      unfolding abs_le_iff using fx fy by simp
    show "\<bar>200 * (fy - fz) - 0\<bar> \<le> 0.2"
      unfolding abs_le_iff using fy fz by simp
    show "(0::real) \<le> 49" "(5.2::real)\<^sup>2 + 0.2\<^sup>2 + 0.2\<^sup>2 < 49\<^sup>2"
      by (simp_all add: power2_eq_square)
    fix c' d0 d1 d2
    assume "(c', (d0, d1, d2)) \<in> set COLOR_CENTROIDS" "c' \<noteq> White"
    then show "49 \<le> \<bar>116 * fy - 16 - d0\<bar> \<or> 49 \<le> \<bar>500 * (fx - fy) - d1\<bar>
        \<or> 49 \<le> \<bar>200 * (fy - fz) - d2\<bar>"
      using fx fy fz by (auto simp: COLOR_CENTROIDS_def)
  qed
  then show ?thesis
    by (simp add: getClosestColor_def lab)
qed

lemma getClosestColor_Yellow: "getClosestColor 255 215 0 = Yellow"
proof -
  define rl gl bl where "rl = srgbLinear (255 / 255)" and "gl = srgbLinear (215 / 255)"
    and "bl = srgbLinear (0 / 255)"
  have rl: "1.0000 \<le> rl" "rl \<le> 1.0000"
    using srgbLinear_255 by (simp_all add: rl_def)
  have gl: "0.6795 \<le> gl" "gl \<le> 0.6796"
    using srgbLinear_215 by (simp_all add: gl_def)
  have bl: "0.0000 \<le> bl" "bl \<le> 0.0000"
    using srgbLinear_0 by (simp_all add: bl_def)
  define x y z where "x = (rl * 0.4124 + gl * 0.3576 + bl * 0.1805) * 100 / 95.047"
    and "y = (rl * 0.2126 + gl * 0.7152 + bl * 0.0722) * 100 / 100.000"
    and "z = (rl * 0.0193 + gl * 0.1192 + bl * 0.9505) * 100 / 108.883"
  have x: "0.68954 \<le> x" "x \<le> 0.68958"
    using rl gl bl by (simp_all add: x_def)
  have y: "0.69857 \<le> y" "y \<le> 0.69865"
    using rl gl bl by (simp_all add: y_def)
  have z: "0.09211 \<le> z" "z \<le> 0.09213"
    using rl gl bl by (simp_all add: z_def)
  define fx fy fz where "fx = labCurve x" and "fy = labCurve y" and "fz = labCurve z"
  have "0.8834 \<le> labCurve x \<and> labCurve x \<le> 0.8835"
    by (rule labCurve_enclose[OF _ x]) (simp_all add: power_divide)
  then have fx: "0.8834 \<le> fx" "fx \<le> 0.8835"
    by (simp_all add: fx_def)
  have "0.8872 \<le> labCurve y \<and> labCurve y \<le> 0.8874"
    by (rule labCurve_enclose[OF _ y]) (simp_all add: power_divide)
  then have fy: "0.8872 \<le> fy" "fy \<le> 0.8874"
    by (simp_all add: fy_def)
  have "0.4516 \<le> labCurve z \<and> labCurve z \<le> 0.4517"
    by (rule labCurve_enclose[OF _ z]) (simp_all add: power_divide)
  then have fz: "0.4516 \<le> fz" "fz \<le> 0.4517"
    by (simp_all add: fz_def)
  have lab: "rgbToLab 255 215 0 = (116 * fy - 16, 500 * (fx - fy), 200 * (fy - fz))"
    unfolding rgbToLab_unfold Let_def fx_def fy_def fz_def x_def y_def z_def rl_def gl_def bl_def
    by (rule refl)
  have "nearestCentroid (116 * fy - 16, 500 * (fx - fy), 200 * (fy - fz)) = Yellow"
  proof (rule nearest_in_box[where ?c0.0 = "85" and ?c1.0 = "-10" and ?c2.0 = "80"
        and ?e0.0 = "2.1" and ?e1.0 = "8.3" and ?e2.0 = "7.3" and \<delta> = 46])
    show "(Yellow, (85, -10, 80)) \<in> set COLOR_CENTROIDS"
      by (simp add: COLOR_CENTROIDS_def)
    show "\<bar>116 * fy - 16 - 85\<bar> \<le> 2.1"
      unfolding abs_le_iff using fy by simp
    show "\<bar>500 * (fx - fy) - (-10)\<bar> \<le> 8.3"
      unfolding abs_le_iff using fx fy by simp
    show "\<bar>200 * (fy - fz) - 80\<bar> \<le> 7.3"
      unfolding abs_le_iff using fy fz by simp
    show "(0::real) \<le> 46" "(2.1::real)\<^sup>2 + 8.3\<^sup>2 + 7.3\<^sup>2 < 46\<^sup>2"
      by (simp_all add: power2_eq_square)
    fix c' d0 d1 d2
    assume "(c', (d0, d1, d2)) \<in> set COLOR_CENTROIDS" "c' \<noteq> Yellow"
    then show "46 \<le> \<bar>116 * fy - 16 - d0\<bar> \<or> 46 \<le> \<bar>500 * (fx - fy) - d1\<bar>
        \<or> 46 \<le> \<bar>200 * (fy - fz) - d2\<bar>"
      using fx fy fz by (auto simp: COLOR_CENTROIDS_def)
  qed
  then show ?thesis
    by (simp add: getClosestColor_def lab)
qed

lemma getClosestColor_Red: "getClosestColor 220 38 38 = Red"
proof -
  define rl gl bl where "rl = srgbLinear (220 / 255)" and "gl = srgbLinear (38 / 255)"
    and "bl = srgbLinear (38 / 255)"
  have rl: "0.7156 \<le> rl" "rl \<le> 0.7157"
    using srgbLinear_220 by (simp_all add: rl_def)
  have gl: "0.0193 \<le> gl" "gl \<le> 0.0194"
    using srgbLinear_38 by (simp_all add: gl_def)
  have bl: "0.0193 \<le> bl" "bl \<le> 0.0194"
    using srgbLinear_38 by (simp_all add: bl_def)
  define x y z where "x = (rl * 0.4124 + gl * 0.3576 + bl * 0.1805) * 100 / 95.047"
    and "y = (rl * 0.2126 + gl * 0.7152 + bl * 0.0722) * 100 / 100.000"
    and "z = (rl * 0.0193 + gl * 0.1192 + bl * 0.9505) * 100 / 108.883"
  have x: "0.32141 \<le> x" "x \<le> 0.32152"
    using rl gl bl by (simp_all add: x_def)
  have y: "0.16733 \<le> y" "y \<le> 0.16744"
    using rl gl bl by (simp_all add: y_def)
  have z: "0.03164 \<le> z" "z \<le> 0.03175"
    using rl gl bl by (simp_all add: z_def)
  define fx fy fz where "fx = labCurve x" and "fy = labCurve y" and "fz = labCurve z"
  have "0.6849 \<le> labCurve x \<and> labCurve x \<le> 0.6851"
    by (rule labCurve_enclose[OF _ x]) (simp_all add: power_divide)
  then have fx: "0.6849 \<le> fx" "fx \<le> 0.6851"
    by (simp_all add: fx_def)
  have "0.5510 \<le> labCurve y \<and> labCurve y \<le> 0.5512"
    by (rule labCurve_enclose[OF _ y]) (simp_all add: power_divide)
  then have fy: "0.5510 \<le> fy" "fy \<le> 0.5512"
    by (simp_all add: fy_def)
  have "0.3162 \<le> labCurve z \<and> labCurve z \<le> 0.3167"
    by (rule labCurve_enclose[OF _ z]) (simp_all add: power_divide)
  then have fz: "0.3162 \<le> fz" "fz \<le> 0.3167"
    by (simp_all add: fz_def)
  have lab: "rgbToLab 220 38 38 = (116 * fy - 16, 500 * (fx - fy), 200 * (fy - fz))"
    unfolding rgbToLab_unfold Let_def fx_def fy_def fz_def x_def y_def z_def rl_def gl_def bl_def
    by (rule refl)
  have "nearestCentroid (116 * fy - 16, 500 * (fx - fy), 200 * (fy - fz)) = Red"
  proof (rule nearest_in_box[where ?c0.0 = "45" and ?c1.0 = "60" and ?c2.0 = "45"
        and ?e0.0 = "3.1" and ?e1.0 = "7.2" and ?e2.0 = "2.1" and \<delta> = 21])
    show "(Red, (45, 60, 45)) \<in> set COLOR_CENTROIDS"
      by (simp add: COLOR_CENTROIDS_def)
    show "\<bar>116 * fy - 16 - 45\<bar> \<le> 3.1"
      unfolding abs_le_iff using fy by simp
    show "\<bar>500 * (fx - fy) - 60\<bar> \<le> 7.2"
      unfolding abs_le_iff using fx fy by simp
    show "\<bar>200 * (fy - fz) - 45\<bar> \<le> 2.1"
      unfolding abs_le_iff using fy fz by simp
    show "(0::real) \<le> 21" "(3.1::real)\<^sup>2 + 7.2\<^sup>2 + 2.1\<^sup>2 < 21\<^sup>2"
      by (simp_all add: power2_eq_square)
    fix c' d0 d1 d2
    assume "(c', (d0, d1, d2)) \<in> set COLOR_CENTROIDS" "c' \<noteq> Red"
    then show "21 \<le> \<bar>116 * fy - 16 - d0\<bar> \<or> 21 \<le> \<bar>500 * (fx - fy) - d1\<bar>
        \<or> 21 \<le> \<bar>200 * (fy - fz) - d2\<bar>"
      using fx fy fz by (auto simp: COLOR_CENTROIDS_def)
  qed
  then show ?thesis
    by (simp add: getClosestColor_def lab)
qed

lemma getClosestColor_Orange: "getClosestColor 249 115 22 = Orange"
proof -
  define rl gl bl where "rl = srgbLinear (249 / 255)" and "gl = srgbLinear (115 / 255)"
    and "bl = srgbLinear (22 / 255)"
  have rl: "0.9473 \<le> rl" "rl \<le> 0.9474"
    using srgbLinear_249 by (simp_all add: rl_def)
  have gl: "0.1714 \<le> gl" "gl \<le> 0.1715"
    using srgbLinear_115 by (simp_all add: gl_def)
  have bl: "0.0080 \<le> bl" "bl \<le> 0.0081"
    using srgbLinear_22 by (simp_all add: bl_def)
  define x y z where "x = (rl * 0.4124 + gl * 0.3576 + bl * 0.1805) * 100 / 95.047"
    and "y = (rl * 0.2126 + gl * 0.7152 + bl * 0.0722) * 100 / 100.000"
    and "z = (rl * 0.0193 + gl * 0.1192 + bl * 0.9505) * 100 / 108.883"
  have x: "0.47703 \<le> x" "x \<le> 0.47714"
    using rl gl bl by (simp_all add: x_def)
  have y: "0.32455 \<le> y" "y \<le> 0.32466"
    using rl gl bl by (simp_all add: y_def)
  have z: "0.04253 \<le> z" "z \<le> 0.04264"
    using rl gl bl by (simp_all add: z_def)
  define fx fy fz where "fx = labCurve x" and "fy = labCurve y" and "fz = labCurve z"
  have "0.7813 \<le> labCurve x \<and> labCurve x \<le> 0.7815"
    by (rule labCurve_enclose[OF _ x]) (simp_all add: power_divide)
  then have fx: "0.7813 \<le> fx" "fx \<le> 0.7815"
    by (simp_all add: fx_def)
  have "0.6872 \<le> labCurve y \<and> labCurve y \<le> 0.6873"
    by (rule labCurve_enclose[OF _ y]) (simp_all add: power_divide)
  then have fy: "0.6872 \<le> fy" "fy \<le> 0.6873"
    by (simp_all add: fy_def)
  have "0.3490 \<le> labCurve z \<and> labCurve z \<le> 0.3494"
    by (rule labCurve_enclose[OF _ z]) (simp_all add: power_divide)
  then have fz: "0.3490 \<le> fz" "fz \<le> 0.3494"
    by (simp_all add: fz_def)
  have lab: "rgbToLab 249 115 22 = (116 * fy - 16, 500 * (fx - fy), 200 * (fy - fz))"
    unfolding rgbToLab_unfold Let_def fx_def fy_def fz_def x_def y_def z_def rl_def gl_def bl_def
    by (rule refl)
  have "nearestCentroid (116 * fy - 16, 500 * (fx - fy), 200 * (fy - fz)) = Orange"
  proof (rule nearest_in_box[where ?c0.0 = "65" and ?c1.0 = "45" and ?c2.0 = "65"
        and ?e0.0 = "1.4" and ?e1.0 = "2.3" and ?e2.0 = "2.8" and \<delta> = 22])
    show "(Orange, (65, 45, 65)) \<in> set COLOR_CENTROIDS"
      by (simp add: COLOR_CENTROIDS_def)
    show "\<bar>116 * fy - 16 - 65\<bar> \<le> 1.4"
      unfolding abs_le_iff using fy by simp
    show "\<bar>500 * (fx - fy) - 45\<bar> \<le> 2.3"
      unfolding abs_le_iff using fx fy by simp
    show "\<bar>200 * (fy - fz) - 65\<bar> \<le> 2.8"
      unfolding abs_le_iff using fy fz by simp
    show "(0::real) \<le> 22" "(1.4::real)\<^sup>2 + 2.3\<^sup>2 + 2.8\<^sup>2 < 22\<^sup>2"
      by (simp_all add: power2_eq_square)
    fix c' d0 d1 d2
    assume "(c', (d0, d1, d2)) \<in> set COLOR_CENTROIDS" "c' \<noteq> Orange"
    then show "22 \<le> \<bar>116 * fy - 16 - d0\<bar> \<or> 22 \<le> \<bar>500 * (fx - fy) - d1\<bar>
        \<or> 22 \<le> \<bar>200 * (fy - fz) - d2\<bar>"
      using fx fy fz by (auto simp: COLOR_CENTROIDS_def)
  qed
  then show ?thesis
    by (simp add: getClosestColor_def lab)
qed

lemma getClosestColor_Blue: "getClosestColor 37 99 235 = Blue"
proof -
  define rl gl bl where "rl = srgbLinear (37 / 255)" and "gl = srgbLinear (99 / 255)"
    and "bl = srgbLinear (235 / 255)"
  have rl: "0.0185 \<le> rl" "rl \<le> 0.0186"
    using srgbLinear_37 by (simp_all add: rl_def)
  have gl: "0.1247 \<le> gl" "gl \<le> 0.1248"
    using srgbLinear_99 by (simp_all add: gl_def)
  have bl: "0.8307 \<le> bl" "bl \<le> 0.8308"
    using srgbLinear_235 by (simp_all add: bl_def)
  define x y z where "x = (rl * 0.4124 + gl * 0.3576 + bl * 0.1805) * 100 / 95.047"
    and "y = (rl * 0.2126 + gl * 0.7152 + bl * 0.0722) * 100 / 100.000"
    and "z = (rl * 0.0193 + gl * 0.1192 + bl * 0.9505) * 100 / 108.883"
  have x: "0.21269 \<le> x" "x \<le> 0.21280"
    using rl gl bl by (simp_all add: x_def)
  have y: "0.15309 \<le> y" "y \<le> 0.15320"
    using rl gl bl by (simp_all add: y_def)
  have z: "0.73914 \<le> z" "z \<le> 0.73925"
    using rl gl bl by (simp_all add: z_def)
  define fx fy fz where "fx = labCurve x" and "fy = labCurve y" and "fz = labCurve z"
  have "0.5969 \<le> labCurve x \<and> labCurve x \<le> 0.5971"
    by (rule labCurve_enclose[OF _ x]) (simp_all add: power_divide)
  then have fx: "0.5969 \<le> fx" "fx \<le> 0.5971"
    by (simp_all add: fx_def)
  have "0.5349 \<le> labCurve y \<and> labCurve y \<le> 0.5351"
    by (rule labCurve_enclose[OF _ y]) (simp_all add: power_divide)
  then have fy: "0.5349 \<le> fy" "fy \<le> 0.5351"
    by (simp_all add: fy_def)
  have "0.9041 \<le> labCurve z \<and> labCurve z \<le> 0.9042"
    by (rule labCurve_enclose[OF _ z]) (simp_all add: power_divide)
  then have fz: "0.9041 \<le> fz" "fz \<le> 0.9042"
    by (simp_all add: fz_def)
  have lab: "rgbToLab 37 99 235 = (116 * fy - 16, 500 * (fx - fy), 200 * (fy - fz))"
    unfolding rgbToLab_unfold Let_def fx_def fy_def fz_def x_def y_def z_def rl_def gl_def bl_def
    by (rule refl)
  have "nearestCentroid (116 * fy - 16, 500 * (fx - fy), 200 * (fy - fz)) = Blue"
  proof (rule nearest_in_box[where ?c0.0 = "35" and ?c1.0 = "10" and ?c2.0 = "-50"
        and ?e0.0 = "11.2" and ?e1.0 = "21.2" and ?e2.0 = "24.0" and \<delta> = 73])
    show "(Blue, (35, 10, -50)) \<in> set COLOR_CENTROIDS"
      by (simp add: COLOR_CENTROIDS_def)
    show "\<bar>116 * fy - 16 - 35\<bar> \<le> 11.2"
      unfolding abs_le_iff using fy by simp
    show "\<bar>500 * (fx - fy) - 10\<bar> \<le> 21.2"
      unfolding abs_le_iff using fx fy by simp
    show "\<bar>200 * (fy - fz) - (-50)\<bar> \<le> 24.0"
      unfolding abs_le_iff using fy fz by simp
    show "(0::real) \<le> 73" "(11.2::real)\<^sup>2 + 21.2\<^sup>2 + 24.0\<^sup>2 < 73\<^sup>2"
      by (simp_all add: power2_eq_square)
    fix c' d0 d1 d2
    assume "(c', (d0, d1, d2)) \<in> set COLOR_CENTROIDS" "c' \<noteq> Blue"
    then show "73 \<le> \<bar>116 * fy - 16 - d0\<bar> \<or> 73 \<le> \<bar>500 * (fx - fy) - d1\<bar>
        \<or> 73 \<le> \<bar>200 * (fy - fz) - d2\<bar>"
      using fx fy fz by (auto simp: COLOR_CENTROIDS_def)
  qed
  then show ?thesis
    by (simp add: getClosestColor_def lab)
qed

lemma getClosestColor_Green: "getClosestColor 22 163 74 = Green"
proof -
  define rl gl bl where "rl = srgbLinear (22 / 255)" and "gl = srgbLinear (163 / 255)"
    and "bl = srgbLinear (74 / 255)"
  have rl: "0.0080 \<le> rl" "rl \<le> 0.0081"
    using srgbLinear_22 by (simp_all add: rl_def)
  have gl: "0.3662 \<le> gl" "gl \<le> 0.3663"
    using srgbLinear_163 by (simp_all add: gl_def)
  have bl: "0.0684 \<le> bl" "bl \<le> 0.0685"
    using srgbLinear_74 by (simp_all add: bl_def)
  define x y z where "x = (rl * 0.4124 + gl * 0.3576 + bl * 0.1805) * 100 / 95.047"
    and "y = (rl * 0.2126 + gl * 0.7152 + bl * 0.0722) * 100 / 100.000"
    and "z = (rl * 0.0193 + gl * 0.1192 + bl * 0.9505) * 100 / 108.883"
  have x: "0.15423 \<le> x" "x \<le> 0.15434"
    using rl gl bl by (simp_all add: x_def)
  have y: "0.26854 \<le> y" "y \<le> 0.26865"
    using rl gl bl by (simp_all add: y_def)
  have z: "0.09994 \<le> z" "z \<le> 0.10005"
    using rl gl bl by (simp_all add: z_def)
  define fx fy fz where "fx = labCurve x" and "fy = labCurve y" and "fz = labCurve z"
  have "0.5362 \<le> labCurve x \<and> labCurve x \<le> 0.5365"
    by (rule labCurve_enclose[OF _ x]) (simp_all add: power_divide)
  then have fx: "0.5362 \<le> fx" "fx \<le> 0.5365"
    by (simp_all add: fx_def)
  have "0.6451 \<le> labCurve y \<and> labCurve y \<le> 0.6453"
    by (rule labCurve_enclose[OF _ y]) (simp_all add: power_divide)
  then have fy: "0.6451 \<le> fy" "fy \<le> 0.6453"
    by (simp_all add: fy_def)
  have "0.4640 \<le> labCurve z \<and> labCurve z \<le> 0.4643"
    by (rule labCurve_enclose[OF _ z]) (simp_all add: power_divide)
  then have fz: "0.4640 \<le> fz" "fz \<le> 0.4643"
    by (simp_all add: fz_def)
  have lab: "rgbToLab 22 163 74 = (116 * fy - 16, 500 * (fx - fy), 200 * (fy - fz))"
    unfolding rgbToLab_unfold Let_def fx_def fy_def fz_def x_def y_def z_def rl_def gl_def bl_def
    by (rule refl)
  have "nearestCentroid (116 * fy - 16, 500 * (fx - fy), 200 * (fy - fz)) = Green"
  proof (rule nearest_in_box[where ?c0.0 = "55" and ?c1.0 = "-50" and ?c2.0 = "40"
        and ?e0.0 = "4.0" and ?e1.0 = "4.7" and ?e2.0 = "4.0" and \<delta> = 44])
    show "(Green, (55, -50, 40)) \<in> set COLOR_CENTROIDS"
      by (simp add: COLOR_CENTROIDS_def)
    show "\<bar>116 * fy - 16 - 55\<bar> \<le> 4.0"
      unfolding abs_le_iff using fy by simp
    show "\<bar>500 * (fx - fy) - (-50)\<bar> \<le> 4.7"
      unfolding abs_le_iff using fx fy by simp
    show "\<bar>200 * (fy - fz) - 40\<bar> \<le> 4.0"
      unfolding abs_le_iff using fy fz by simp
    show "(0::real) \<le> 44" "(4.0::real)\<^sup>2 + 4.7\<^sup>2 + 4.0\<^sup>2 < 44\<^sup>2"
      by (simp_all add: power2_eq_square)
    fix c' d0 d1 d2
    assume "(c', (d0, d1, d2)) \<in> set COLOR_CENTROIDS" "c' \<noteq> Green"
    then show "44 \<le> \<bar>116 * fy - 16 - d0\<bar> \<or> 44 \<le> \<bar>500 * (fx - fy) - d1\<bar>
        \<or> 44 \<le> \<bar>200 * (fy - fz) - d2\<bar>"
      using fx fy fz by (auto simp: COLOR_CENTROIDS_def)
  qed
  then show ?thesis
    by (simp add: getClosestColor_def lab)
qed

lemma COLOR_MAP_rgb:
  "hexToRgb (COLOR_MAP White) = Some (255, 255, 255)"
  "hexToRgb (COLOR_MAP Yellow) = Some (255, 215, 0)"
  "hexToRgb (COLOR_MAP Red) = Some (220, 38, 38)"
  "hexToRgb (COLOR_MAP Orange) = Some (249, 115, 22)"
  "hexToRgb (COLOR_MAP Blue) = Some (37, 99, 235)"
  "hexToRgb (COLOR_MAP Green) = Some (22, 163, 74)"
  by (simp_all add: hexDigit_def)

text \<open>
  Claim C4. \<^verbatim>\<open>getClosestColor\<close> classifies (255, 255, 255) as white and
  (255, 215, 0) as yellow, and for each of the six labels the RGB triple that
  \<^verbatim>\<open>COLOR_MAP\<close> gives the label is classified as that label: (220, 38, 38) as
  red, (249, 115, 22) as orange, (37, 99, 235) as blue and (22, 163, 74) as green.
\<close>

theorem canonical_colours_classified:
  "getClosestColor 255 255 255 = White \<and>
   getClosestColor 255 215 0 = Yellow \<and>
   getClosestColor 220 38 38 = Red \<and>
   getClosestColor 249 115 22 = Orange \<and>
   getClosestColor 37 99 235 = Blue \<and>
   getClosestColor 22 163 74 = Green \<and>
   (\<forall>c. \<exists>r g b. hexToRgb (COLOR_MAP c) = Some (r, g, b) \<and> getClosestColor r g b = c)"
proof -
  have "\<exists>r g b. hexToRgb (COLOR_MAP c) = Some (r, g, b) \<and> getClosestColor r g b = c" for c
  proof (cases c)
    case White
    with COLOR_MAP_rgb(1) getClosestColor_White show ?thesis by blast
  next
    case Yellow
    with COLOR_MAP_rgb(2) getClosestColor_Yellow show ?thesis by blast
  next
    case Red
    with COLOR_MAP_rgb(3) getClosestColor_Red show ?thesis by blast
  next
    case Orange
    with COLOR_MAP_rgb(4) getClosestColor_Orange show ?thesis by blast
  next
    case Blue
    with COLOR_MAP_rgb(5) getClosestColor_Blue show ?thesis by blast
  next
    case Green
    with COLOR_MAP_rgb(6) getClosestColor_Green show ?thesis by blast
  qed
  with getClosestColor_White getClosestColor_Yellow getClosestColor_Red getClosestColor_Orange
    getClosestColor_Blue getClosestColor_Green
  show ?thesis by blast
qed


end
